theory Spec2Isabelle
  imports Complex_Main
begin

section \<open>The waveform computation of the RC-circuit visualiser\<close>

text \<open>
  The program is one Dash callback, \<^verbatim>\<open>update_graphs(R_ohm, C_micro_f, U0, mode_is_charge)\<close>
  in \<^verbatim>\<open>src/app.py\<close>. Its computational part (lines 249 to 267, and the unit
  conversions of lines 278, 279, 313 and 339) is embedded below.

  Numbers. The source computes with IEEE double precision numbers. They are modelled
  by the real numbers: \<open>*\<close>, \<open>/\<close>, \<open>max\<close> and \<open>exp\<close> are the exact operations, without
  rounding, overflow or underflow. The two places where the exact operations are
  undefined are written out as results of their own (see \<open>update_graphs\<close>), because
  division by zero is the value \<open>0\<close> in HOL and neither an exception nor a
  not-a-number.
\<close>

subsection \<open>Results that are not a waveform\<close>

datatype error =
  ZeroDivisionError  \<comment> \<open>Python's exception for \<^verbatim>\<open>U0 / R_ohm\<close> on Python numbers with \<^verbatim>\<open>R_ohm == 0\<close>\<close>
| NonFinite          \<comment> \<open>numpy's \<^verbatim>\<open>-t / tau\<close> with \<^verbatim>\<open>tau == 0\<close>: not-a-number at \<^verbatim>\<open>t = 0\<close>, infinite elsewhere\<close>

subsection \<open>numpy.linspace\<close>

text \<open>
  \<^verbatim>\<open>np.linspace(start, stop, num)\<close> belongs to the numpy library, not to the repository.
  The definition follows numpy's implementation for scalar \<open>start\<close> and \<open>stop\<close> with the
  default \<^verbatim>\<open>endpoint=True\<close>:
  \<^verbatim>\<open>
    div = num - 1
    y = arange(0, num)
    delta = stop - start
    step = delta / div
    if div > 0:
        if step == 0: y = y / div; y = y * delta
        else:         y = y * step
    else:
        y = y * delta
    y += start
    if num > 1: y[-1] = stop
  \<close>
\<close>

definition arange :: "nat \<Rightarrow> real list" where
  "arange num = map real [0..<num]"

definition linspace :: "real \<Rightarrow> real \<Rightarrow> nat \<Rightarrow> real list" where
  "linspace start stop num =
     (let dv = num - 1;
          y = arange num;
          delta = stop - start;
          step = delta / real dv;
          y = (if dv > 0
               then (if step = 0 then map (\<lambda>v. v / real dv * delta) y
                     else map (\<lambda>v. v * step) y)
               else map (\<lambda>v. v * delta) y);
          y = map (\<lambda>v. v + start) y
      in if num > 1 then y[num - 1 := stop] else y)"

subsection \<open>The callback\<close>

text \<open>
  The record holds what the callback computes before it hands the sequences to plotly:
  the sample grid \<open>t\<close>, the three waveforms \<open>Uc\<close>, \<open>Q\<close> and \<open>I\<close> in SI units, the scalars
  \<open>tau\<close> and \<open>t_max\<close>, the sequences in display units that become the traces of the three
  figures (\<open>t_ms\<close>, \<open>Q * 1e3\<close>, \<open>I * 1e3\<close>), \<open>tau_ms\<close> and the mode label. The
  formatted \<open>info_text\<close> and the layout of the figures are presentation and are left out.
\<close>

record waveform =
  wf_t :: "real list"
  wf_Uc :: "real list"
  wf_Q :: "real list"
  wf_I :: "real list"
  wf_tau :: real
  wf_t_max :: real
  wf_t_ms :: "real list"
  wf_tau_ms :: real
  wf_Q_mC :: "real list"
  wf_I_mA :: "real list"
  wf_mode_text :: string

text \<open>
  Lines 249 to 267. \<open>R_ohm\<close>, \<open>C_micro_f\<close> and \<open>U0\<close> are Python numbers, \<open>t\<close> is a numpy
  array. With \<open>R_ohm = 0\<close> the division \<^verbatim>\<open>U0 / R_ohm\<close> raises; with \<open>tau = 0\<close> and
  \<open>R_ohm \<noteq> 0\<close> the array division \<^verbatim>\<open>-t / tau\<close> does not raise but yields values that are
  not real numbers.
\<close>

definition update_graphs :: "real \<Rightarrow> real \<Rightarrow> real \<Rightarrow> bool \<Rightarrow> error + waveform" where
  "update_graphs R_ohm C_micro_f U0 mode_is_charge =
     (let C = C_micro_f * 0.000001;
          tau = R_ohm * C;
          t_max = max (5 * tau) 0.01;
          t = linspace 0 t_max 500
      in if R_ohm = 0 then Inl ZeroDivisionError
         else if tau = 0 then Inl NonFinite
         else
           (let (mode_text, Uc, Q, I) =
                  (if mode_is_charge
                   then (let Uc = map (\<lambda>ti. U0 * (1 - exp (- ti / tau))) t
                         in (''Modus: Laden'',
                             Uc,
                             map (\<lambda>u. C * u) Uc,
                             map (\<lambda>ti. (U0 / R_ohm) * exp (- ti / tau)) t))
                   else (''Modus: Entladen'',
                         map (\<lambda>ti. U0 * exp (- ti / tau)) t,
                         map (\<lambda>ti. C * U0 * exp (- ti / tau)) t,
                         map (\<lambda>ti. - (U0 / R_ohm) * exp (- ti / tau)) t))
            in Inr \<lparr> wf_t = t, wf_Uc = Uc, wf_Q = Q, wf_I = I,
                     wf_tau = tau, wf_t_max = t_max,
                     wf_t_ms = map (\<lambda>ti. ti * 1000) t,
                     wf_tau_ms = tau * 1000,
                     wf_Q_mC = map (\<lambda>q. q * 1000) Q,
                     wf_I_mA = map (\<lambda>i. i * 1000) I,
                     wf_mode_text = mode_text \<rparr>))"

section \<open>The sample grid\<close>

lemma length_arange: "length (arange n) = n"
  by (simp add: arange_def)

lemma length_linspace: "length (linspace a b n) = n"
  by (simp add: linspace_def Let_def length_arange)

lemma linspace_nth:
  assumes "1 < n" and "i < n"
  shows "linspace a b n ! i = a + real i * (b - a) / real (n - 1)"
proof (cases "i = n - 1")
  case True
  with assms show ?thesis
    by (simp add: linspace_def Let_def length_arange)
next
  case False
  with assms show ?thesis
    by (simp add: linspace_def Let_def arange_def)
qed

lemma grid_nth:
  assumes "i < 500"
  shows "linspace 0 tm 500 ! i = real i * tm / 499"
  using linspace_nth [of 500 i 0 tm] assms by simp

text \<open>The grid of the callback: \<open>linspace 0 t_max 500\<close>, whose window is never empty.\<close>

lemma t_max_pos: "0 < max (5 * tau) (0.01::real)"
  by simp

lemma grid_mono:
  fixes tm :: real
  assumes "0 < tm" and "i \<le> j"
  shows "real i * tm / 499 \<le> real j * tm / 499"
  using assms by (simp add: mult_right_mono)

lemma grid_strict_mono:
  fixes tm :: real
  assumes "0 < tm" and "i < j"
  shows "real i * tm / 499 < real j * tm / 499"
  using assms by simp

lemma grid_nonneg:
  fixes tm :: real
  assumes "0 < tm"
  shows "0 \<le> real i * tm / 499"
  using assms by simp

lemma decay_le_one:
  fixes tau :: real
  assumes "0 < tau" and "0 \<le> s"
  shows "exp (- s / tau) \<le> 1"
  using assms by simp

lemma decay_mono:
  fixes tau :: real
  assumes "0 < tau" and "s \<le> s'"
  shows "exp (- s' / tau) \<le> exp (- s / tau)"
  using assms by (simp add: divide_right_mono)

lemma decay_strict_mono:
  fixes tau :: real
  assumes "0 < tau" and "s < s'"
  shows "exp (- s' / tau) < exp (- s / tau)"
  using assms by (simp add: divide_strict_right_mono)

lemma tau_pos:
  fixes R :: real
  assumes "0 < R" and "0 < Cm"
  shows "0 < R * (Cm * 0.000001)"
  using assms by simp

section \<open>What the callback returns on positive resistance and capacitance\<close>

text \<open>
  With \<open>0 < R_ohm\<close> and \<open>0 < C_micro_f\<close> neither division fails: the callback returns a
  waveform, whose four sequences have 500 entries each, given sample by sample.
\<close>

lemma charge_samples:
  assumes "0 < R" and "0 < Cm"
  shows "\<exists>w. update_graphs R Cm U0 True = Inr w
           \<and> wf_tau w = R * (Cm * 0.000001)
           \<and> wf_t_max w = max (5 * wf_tau w) 0.01
           \<and> length (wf_t w) = 500 \<and> length (wf_Uc w) = 500
           \<and> length (wf_Q w) = 500 \<and> length (wf_I w) = 500
           \<and> (\<forall>i<500. wf_t w ! i = real i * wf_t_max w / 499
                 \<and> wf_Uc w ! i = U0 * (1 - exp (- (wf_t w ! i) / wf_tau w))
                 \<and> wf_Q w ! i = Cm * 0.000001 * (wf_Uc w ! i)
                 \<and> wf_I w ! i = U0 / R * exp (- (wf_t w ! i) / wf_tau w))"
  using assms by (simp add: update_graphs_def Let_def length_linspace grid_nth)

lemma discharge_samples:
  assumes "0 < R" and "0 < Cm"
  shows "\<exists>w. update_graphs R Cm U0 False = Inr w
           \<and> wf_tau w = R * (Cm * 0.000001)
           \<and> wf_t_max w = max (5 * wf_tau w) 0.01
           \<and> length (wf_t w) = 500 \<and> length (wf_Uc w) = 500
           \<and> length (wf_Q w) = 500 \<and> length (wf_I w) = 500
           \<and> (\<forall>i<500. wf_t w ! i = real i * wf_t_max w / 499
                 \<and> wf_Uc w ! i = U0 * exp (- (wf_t w ! i) / wf_tau w)
                 \<and> wf_Q w ! i = Cm * 0.000001 * U0 * exp (- (wf_t w ! i) / wf_tau w)
                 \<and> wf_I w ! i = - (U0 / R) * exp (- (wf_t w ! i) / wf_tau w))"
  using assms by (simp add: update_graphs_def Let_def length_linspace grid_nth)

text \<open>In either mode the grid is the same function of \<open>R_ohm\<close> and \<open>C_micro_f\<close>.\<close>

lemma returns_grid:
  assumes "0 < R" and "0 < Cm"
  shows "\<exists>w. update_graphs R Cm U0 m = Inr w
           \<and> wf_tau w = R * (Cm * 0.000001)
           \<and> wf_t_max w = max (5 * wf_tau w) 0.01
           \<and> wf_t w = linspace 0 (wf_t_max w) 500"
  using assms by (cases m) (simp_all add: update_graphs_def Let_def)

text \<open>
  The decay factor. Both modes sample the same factor \<open>d i = exp (- t\<^sub>i / \<tau>)\<close>; it starts
  at \<open>1\<close>, stays in \<open>(0, 1]\<close> and falls strictly along the grid.
\<close>

lemma decay_factor:
  assumes "0 < R" and "0 < Cm"
  shows "\<exists>d :: nat \<Rightarrow> real.
           d 0 = 1 \<and> (\<forall>i. 0 < d i \<and> d i \<le> 1)
         \<and> (\<forall>i j. i \<le> j \<longrightarrow> d j \<le> d i) \<and> (\<forall>i j. i < j \<longrightarrow> d j < d i)
         \<and> (\<exists>w. update_graphs R Cm U0 True = Inr w
               \<and> (\<forall>i<500. wf_Uc w ! i = U0 * (1 - d i)
                     \<and> wf_Q w ! i = Cm * 0.000001 * (wf_Uc w ! i)
                     \<and> wf_I w ! i = U0 / R * d i))
         \<and> (\<exists>w. update_graphs R Cm U0 False = Inr w
               \<and> (\<forall>i<500. wf_Uc w ! i = U0 * d i
                     \<and> wf_Q w ! i = Cm * 0.000001 * U0 * d i
                     \<and> wf_I w ! i = - (U0 / R) * d i))"
proof -
  define tau where "tau = R * (Cm * 0.000001)"
  define tm :: real where "tm = max (5 * tau) 0.01"
  define d where "d i = exp (- (real i * tm / 499) / tau)" for i :: nat
  have tau: "0 < tau" unfolding tau_def by (rule tau_pos [OF assms])
  have tm: "0 < tm" unfolding tm_def by (rule t_max_pos)
  have d0: "d 0 = 1" by (simp add: d_def)
  have d1: "\<forall>i. 0 < d i \<and> d i \<le> 1"
    unfolding d_def using decay_le_one [OF tau grid_nonneg [OF tm]] by simp
  have d2: "\<forall>i j. i \<le> j \<longrightarrow> d j \<le> d i"
    unfolding d_def using decay_mono [OF tau grid_mono [OF tm]] by blast
  have d3: "\<forall>i j. i < j \<longrightarrow> d j < d i"
    unfolding d_def using decay_strict_mono [OF tau grid_strict_mono [OF tm]] by blast
  from charge_samples [OF assms, of U0] obtain wc where
    retc: "update_graphs R Cm U0 True = Inr wc"
    and tauc: "wf_tau wc = R * (Cm * 0.000001)"
    and tmaxc: "wf_t_max wc = max (5 * wf_tau wc) 0.01"
    and smpc: "\<forall>i<500. wf_t wc ! i = real i * wf_t_max wc / 499
                 \<and> wf_Uc wc ! i = U0 * (1 - exp (- (wf_t wc ! i) / wf_tau wc))
                 \<and> wf_Q wc ! i = Cm * 0.000001 * (wf_Uc wc ! i)
                 \<and> wf_I wc ! i = U0 / R * exp (- (wf_t wc ! i) / wf_tau wc)"
    by blast
  from discharge_samples [OF assms, of U0] obtain wd where
    retd: "update_graphs R Cm U0 False = Inr wd"
    and taud: "wf_tau wd = R * (Cm * 0.000001)"
    and tmaxd: "wf_t_max wd = max (5 * wf_tau wd) 0.01"
    and smpd: "\<forall>i<500. wf_t wd ! i = real i * wf_t_max wd / 499
                 \<and> wf_Uc wd ! i = U0 * exp (- (wf_t wd ! i) / wf_tau wd)
                 \<and> wf_Q wd ! i = Cm * 0.000001 * U0 * exp (- (wf_t wd ! i) / wf_tau wd)
                 \<and> wf_I wd ! i = - (U0 / R) * exp (- (wf_t wd ! i) / wf_tau wd)"
    by blast
  have c: "wf_tau wc = tau" "wf_t_max wc = tm"
    by (simp_all only: tauc tmaxc tau_def tm_def)
  have dd: "wf_tau wd = tau" "wf_t_max wd = tm"
    by (simp_all only: taud tmaxd tau_def tm_def)
  have sc: "\<forall>i<500. wf_Uc wc ! i = U0 * (1 - d i)
                     \<and> wf_Q wc ! i = Cm * 0.000001 * (wf_Uc wc ! i)
                     \<and> wf_I wc ! i = U0 / R * d i"
  proof (intro allI impI)
    fix i :: nat assume "i < 500"
    from smpc [rule_format, OF this]
    show "wf_Uc wc ! i = U0 * (1 - d i)
            \<and> wf_Q wc ! i = Cm * 0.000001 * (wf_Uc wc ! i)
            \<and> wf_I wc ! i = U0 / R * d i"
      unfolding c d_def by (elim conjE) (simp only:)
  qed
  have sd: "\<forall>i<500. wf_Uc wd ! i = U0 * d i
                     \<and> wf_Q wd ! i = Cm * 0.000001 * U0 * d i
                     \<and> wf_I wd ! i = - (U0 / R) * d i"
  proof (intro allI impI)
    fix i :: nat assume "i < 500"
    from smpd [rule_format, OF this]
    show "wf_Uc wd ! i = U0 * d i
            \<and> wf_Q wd ! i = Cm * 0.000001 * U0 * d i
            \<and> wf_I wd ! i = - (U0 / R) * d i"
      unfolding dd d_def by (elim conjE) (simp only:)
  qed
  from d0 d1 d2 d3 retc sc retd sd show ?thesis by blast
qed

text \<open>
  The shape of the result. In either mode the four sequences have 500 entries each, and
  \<open>tau\<close> and \<open>t_max\<close> are positive. Every entry is a real number: in this model the only
  results that are not sequences of real numbers are the two of \<open>error\<close>, and neither
  occurs for positive \<open>R_ohm\<close> and \<open>C_micro_f\<close>. Whether the doubles of the source overflow
  or underflow is outside the model.
\<close>

lemma result_shape:
  assumes "0 < R" and "0 < Cm"
  shows "\<exists>w. update_graphs R Cm U0 m = Inr w
           \<and> length (wf_t w) = 500 \<and> length (wf_Uc w) = 500
           \<and> length (wf_Q w) = 500 \<and> length (wf_I w) = 500
           \<and> 0 < wf_tau w \<and> 0 < wf_t_max w"
proof (cases m)
  case True
  from charge_samples [OF assms, of U0] obtain w where
    ret: "update_graphs R Cm U0 True = Inr w"
    and tau: "wf_tau w = R * (Cm * 0.000001)"
    and tmax: "wf_t_max w = max (5 * wf_tau w) 0.01"
    and len: "length (wf_t w) = 500" "length (wf_Uc w) = 500"
             "length (wf_Q w) = 500" "length (wf_I w) = 500"
    by (elim exE conjE) (rule that)
  have p: "0 < wf_tau w" unfolding tau by (rule tau_pos [OF assms])
  have q: "0 < wf_t_max w" unfolding tmax by (rule t_max_pos)
  from ret len p q
  have "\<exists>w. update_graphs R Cm U0 True = Inr w
           \<and> length (wf_t w) = 500 \<and> length (wf_Uc w) = 500
           \<and> length (wf_Q w) = 500 \<and> length (wf_I w) = 500
           \<and> 0 < wf_tau w \<and> 0 < wf_t_max w"
    by (intro exI conjI)
  with True show ?thesis by simp
next
  case False
  from discharge_samples [OF assms, of U0] obtain w where
    ret: "update_graphs R Cm U0 False = Inr w"
    and tau: "wf_tau w = R * (Cm * 0.000001)"
    and tmax: "wf_t_max w = max (5 * wf_tau w) 0.01"
    and len: "length (wf_t w) = 500" "length (wf_Uc w) = 500"
             "length (wf_Q w) = 500" "length (wf_I w) = 500"
    by (elim exE conjE) (rule that)
  have p: "0 < wf_tau w" unfolding tau by (rule tau_pos [OF assms])
  have q: "0 < wf_t_max w" unfolding tmax by (rule t_max_pos)
  from ret len p q
  have "\<exists>w. update_graphs R Cm U0 False = Inr w
           \<and> length (wf_t w) = 500 \<and> length (wf_Uc w) = 500
           \<and> length (wf_Q w) = 500 \<and> length (wf_I w) = 500
           \<and> 0 < wf_tau w \<and> 0 < wf_t_max w"
    by (intro exI conjI)
  with False show ?thesis by simp
qed

text \<open>
  Outside that domain the model shows the two failures of the source: a zero resistance
  raises, and a zero capacitance with a resistance that is not zero gives values that are
  not real numbers.
\<close>

lemma zero_resistance: "update_graphs 0 Cm U0 m = Inl ZeroDivisionError"
  by (simp add: update_graphs_def Let_def)

lemma zero_capacitance: "R \<noteq> 0 \<Longrightarrow> update_graphs R 0 U0 m = Inl NonFinite"
  by (simp add: update_graphs_def Let_def)

section \<open>The claims\<close>

text \<open>
  In every theorem below \<open>R\<close> is the resistance in ohm, \<open>C_micro\<close> the capacitance in
  microfarad and \<open>U0\<close> the supply voltage; \<open>C_micro * 0.000001\<close> is the capacitance \<open>C\<close> in
  farad and \<open>R * (C_micro * 0.000001)\<close> the time constant \<open>\<tau>\<close>. The mode \<open>True\<close> is
  charging, \<open>False\<close> is discharging. The sample with index \<open>i\<close> is the entry \<open>! i\<close> of a
  sequence, for \<open>i < 500\<close>.
\<close>

subsection \<open>C1: the charging waveforms\<close>

text \<open>
  Claim C1. For every \<open>R > 0\<close>, \<open>C_micro > 0\<close> and \<open>U0\<close>, the callback in charging mode
  returns a waveform, and at every sample point \<open>t\<^sub>i\<close> of its grid
  \<open>U\<^sub>C(t\<^sub>i) = U0 * (1 - exp (- t\<^sub>i / \<tau>))\<close>, \<open>Q(t\<^sub>i) = C * U\<^sub>C(t\<^sub>i)\<close> and
  \<open>I(t\<^sub>i) = (U0 / R) * exp (- t\<^sub>i / \<tau>)\<close>, with \<open>C = C_micro * 1e-6\<close> and \<open>\<tau> = R * C\<close>.
\<close>

theorem C1_charging_formulas:
  assumes "0 < R" and "0 < C_micro"
  shows "\<exists>w. update_graphs R C_micro U0 True = Inr w
           \<and> length (wf_t w) = 500 \<and> length (wf_Uc w) = 500
           \<and> length (wf_Q w) = 500 \<and> length (wf_I w) = 500
           \<and> (\<forall>i<500.
                 wf_Uc w ! i = U0 * (1 - exp (- (wf_t w ! i) / (R * (C_micro * 0.000001))))
               \<and> wf_Q w ! i = (C_micro * 0.000001) * (wf_Uc w ! i)
               \<and> wf_I w ! i = (U0 / R) * exp (- (wf_t w ! i) / (R * (C_micro * 0.000001))))"
proof -
  from charge_samples [OF assms, of U0] obtain w where
    ret: "update_graphs R C_micro U0 True = Inr w"
    and tau: "wf_tau w = R * (C_micro * 0.000001)"
    and len: "length (wf_t w) = 500" "length (wf_Uc w) = 500"
             "length (wf_Q w) = 500" "length (wf_I w) = 500"
    and smp: "\<forall>i<500. wf_t w ! i = real i * wf_t_max w / 499
                 \<and> wf_Uc w ! i = U0 * (1 - exp (- (wf_t w ! i) / wf_tau w))
                 \<and> wf_Q w ! i = C_micro * 0.000001 * (wf_Uc w ! i)
                 \<and> wf_I w ! i = U0 / R * exp (- (wf_t w ! i) / wf_tau w)"
    by blast
  from smp have "\<forall>i<500.
                 wf_Uc w ! i = U0 * (1 - exp (- (wf_t w ! i) / (R * (C_micro * 0.000001))))
               \<and> wf_Q w ! i = (C_micro * 0.000001) * (wf_Uc w ! i)
               \<and> wf_I w ! i = (U0 / R) * exp (- (wf_t w ! i) / (R * (C_micro * 0.000001)))"
    unfolding tau by blast
  with ret len show ?thesis by blast
qed

text \<open>
  The scenario of the specification: \<open>R = 1000\<close>, \<open>C = 100\<close> microfarad, \<open>U0 = 5\<close>, so
  \<open>\<tau> = 0.1\<close> and the window ends at \<open>0.5\<close>. The current starts at \<open>5 mA\<close>; at the last sample
  the voltage is \<open>5 * (1 - exp (- 5))\<close>.
\<close>

theorem C1_charging_formulas_witness:
  "(0::real) < 1000 \<and> (0::real) < 100
   \<and> \<not> isl (update_graphs 1000 100 5 True)
   \<and> wf_Uc (projr (update_graphs 1000 100 5 True)) ! 499 = 5 * (1 - exp (- 5))
   \<and> wf_Q (projr (update_graphs 1000 100 5 True)) ! 499 = 0.0001 * (5 * (1 - exp (- 5)))
   \<and> wf_I (projr (update_graphs 1000 100 5 True)) ! 499 = 0.005 * exp (- 5)
   \<and> wf_I (projr (update_graphs 1000 100 5 True)) ! 0 = 0.005"
proof -
  have h: "(0::real) < 1000" "(0::real) < 100" by simp_all
  from C1_charging_formulas [OF h, of 5] obtain w where
    ret: "update_graphs 1000 100 5 True = Inr w"
    and smp: "\<forall>i<500.
                 wf_Uc w ! i = 5 * (1 - exp (- (wf_t w ! i) / (1000 * (100 * 0.000001))))
               \<and> wf_Q w ! i = (100 * 0.000001) * (wf_Uc w ! i)
               \<and> wf_I w ! i = (5 / 1000) * exp (- (wf_t w ! i) / (1000 * (100 * 0.000001)))"
    by blast
  from charge_samples [OF h, of 5] obtain w' where
    ret': "update_graphs 1000 100 5 True = Inr w'"
    and tau: "wf_tau w' = 1000 * (100 * 0.000001)"
    and tmax: "wf_t_max w' = max (5 * wf_tau w') 0.01"
    and grid: "\<forall>i<500. wf_t w' ! i = real i * wf_t_max w' / 499"
    by blast
  from ret ret' have same: "w' = w" by simp
  have tm: "wf_t_max w = 0.5" using tmax tau unfolding same by simp
  note g = grid [unfolded same, rule_format]
  have t0: "wf_t w ! 0 = 0" using g [of 0] by simp
  have t499: "wf_t w ! 499 = 0.5" using g [of 499] tm by simp
  note f = smp [rule_format]
  have s0: "wf_I w ! 0 = 0.005" using f [of 0] t0 by simp
  have s499: "wf_Uc w ! 499 = 5 * (1 - exp (- 5))"
    "wf_Q w ! 499 = 0.0001 * (5 * (1 - exp (- 5)))"
    "wf_I w ! 499 = 0.005 * exp (- 5)"
    using f [of 499] t499 by simp_all
  from s0 s499 show ?thesis by (simp add: ret)
qed

subsection \<open>C2: the discharging waveforms\<close>

text \<open>
  Claim C2. For every \<open>R > 0\<close>, \<open>C_micro > 0\<close> and \<open>U0\<close>, the callback in discharging mode
  returns a waveform, and at every sample point \<open>t\<^sub>i\<close> of its grid
  \<open>U\<^sub>C(t\<^sub>i) = U0 * exp (- t\<^sub>i / \<tau>)\<close>, \<open>Q(t\<^sub>i) = C * U0 * exp (- t\<^sub>i / \<tau>)\<close> and
  \<open>I(t\<^sub>i) = - (U0 / R) * exp (- t\<^sub>i / \<tau>)\<close>; the discharging current of every sample is the
  negation of the charging current that the callback returns for the same \<open>R\<close>, \<open>C_micro\<close>
  and \<open>U0\<close>.
\<close>

theorem C2_discharging_formulas:
  assumes "0 < R" and "0 < C_micro"
  shows "\<exists>w wc. update_graphs R C_micro U0 False = Inr w
           \<and> update_graphs R C_micro U0 True = Inr wc
           \<and> length (wf_t w) = 500 \<and> length (wf_Uc w) = 500
           \<and> length (wf_Q w) = 500 \<and> length (wf_I w) = 500
           \<and> (\<forall>i<500.
                 wf_Uc w ! i = U0 * exp (- (wf_t w ! i) / (R * (C_micro * 0.000001)))
               \<and> wf_Q w ! i = (C_micro * 0.000001) * U0 * exp (- (wf_t w ! i) / (R * (C_micro * 0.000001)))
               \<and> wf_I w ! i = - (U0 / R) * exp (- (wf_t w ! i) / (R * (C_micro * 0.000001)))
               \<and> wf_I w ! i = - (wf_I wc ! i))"
proof -
  from discharge_samples [OF assms, of U0] obtain w where
    ret: "update_graphs R C_micro U0 False = Inr w"
    and tau: "wf_tau w = R * (C_micro * 0.000001)"
    and tmax: "wf_t_max w = max (5 * wf_tau w) 0.01"
    and len: "length (wf_t w) = 500" "length (wf_Uc w) = 500"
             "length (wf_Q w) = 500" "length (wf_I w) = 500"
    and smp: "\<forall>i<500. wf_t w ! i = real i * wf_t_max w / 499
                 \<and> wf_Uc w ! i = U0 * exp (- (wf_t w ! i) / wf_tau w)
                 \<and> wf_Q w ! i = C_micro * 0.000001 * U0 * exp (- (wf_t w ! i) / wf_tau w)
                 \<and> wf_I w ! i = - (U0 / R) * exp (- (wf_t w ! i) / wf_tau w)"
    by blast
  from charge_samples [OF assms, of U0] obtain wc where
    retc: "update_graphs R C_micro U0 True = Inr wc"
    and tauc: "wf_tau wc = R * (C_micro * 0.000001)"
    and tmaxc: "wf_t_max wc = max (5 * wf_tau wc) 0.01"
    and smpc: "\<forall>i<500. wf_t wc ! i = real i * wf_t_max wc / 499
                 \<and> wf_Uc wc ! i = U0 * (1 - exp (- (wf_t wc ! i) / wf_tau wc))
                 \<and> wf_Q wc ! i = C_micro * 0.000001 * (wf_Uc wc ! i)
                 \<and> wf_I wc ! i = U0 / R * exp (- (wf_t wc ! i) / wf_tau wc)"
    by blast
  have taus: "wf_tau wc = wf_tau w" and tmaxs: "wf_t_max wc = wf_t_max w"
    by (simp_all add: tau tauc tmax tmaxc)
  have "\<forall>i<500.
          wf_Uc w ! i = U0 * exp (- (wf_t w ! i) / (R * (C_micro * 0.000001)))
        \<and> wf_Q w ! i = (C_micro * 0.000001) * U0 * exp (- (wf_t w ! i) / (R * (C_micro * 0.000001)))
        \<and> wf_I w ! i = - (U0 / R) * exp (- (wf_t w ! i) / (R * (C_micro * 0.000001)))
        \<and> wf_I w ! i = - (wf_I wc ! i)"
  proof (intro allI impI)
    fix i :: nat assume i: "i < 500"
    note d = smp [rule_format, OF i] and c = smpc [rule_format, OF i]
    from d c have grid: "wf_t wc ! i = wf_t w ! i" by (simp add: tmaxs)
    from c have "wf_I wc ! i = U0 / R * exp (- (wf_t w ! i) / wf_tau w)"
      by (simp only: grid taus)
    with d have "wf_I w ! i = - (wf_I wc ! i)" by simp
    with d show "wf_Uc w ! i = U0 * exp (- (wf_t w ! i) / (R * (C_micro * 0.000001)))
        \<and> wf_Q w ! i = (C_micro * 0.000001) * U0 * exp (- (wf_t w ! i) / (R * (C_micro * 0.000001)))
        \<and> wf_I w ! i = - (U0 / R) * exp (- (wf_t w ! i) / (R * (C_micro * 0.000001)))
        \<and> wf_I w ! i = - (wf_I wc ! i)"
      unfolding tau by blast
  qed
  with ret retc len show ?thesis by blast
qed

theorem C2_discharging_formulas_witness:
  "(0::real) < 1000 \<and> (0::real) < 100
   \<and> \<not> isl (update_graphs 1000 100 5 False)
   \<and> wf_Uc (projr (update_graphs 1000 100 5 False)) ! 0 = 5
   \<and> wf_Q (projr (update_graphs 1000 100 5 False)) ! 0 = 0.0005
   \<and> wf_I (projr (update_graphs 1000 100 5 False)) ! 0 = - 0.005
   \<and> wf_I (projr (update_graphs 1000 100 5 False)) ! 0
       = - (wf_I (projr (update_graphs 1000 100 5 True)) ! 0)"
proof -
  have h: "(0::real) < 1000" "(0::real) < 100" by simp_all
  from C2_discharging_formulas [OF h, of 5] obtain w wc where
    ret: "update_graphs 1000 100 5 False = Inr w"
    and retc: "update_graphs 1000 100 5 True = Inr wc"
    and smp: "\<forall>i<500.
                 wf_Uc w ! i = 5 * exp (- (wf_t w ! i) / (1000 * (100 * 0.000001)))
               \<and> wf_Q w ! i = (100 * 0.000001) * 5 * exp (- (wf_t w ! i) / (1000 * (100 * 0.000001)))
               \<and> wf_I w ! i = - (5 / 1000) * exp (- (wf_t w ! i) / (1000 * (100 * 0.000001)))
               \<and> wf_I w ! i = - (wf_I wc ! i)"
    by blast
  from discharge_samples [OF h, of 5] obtain w' where
    ret': "update_graphs 1000 100 5 False = Inr w'"
    and grid: "\<forall>i<500. wf_t w' ! i = real i * wf_t_max w' / 499"
    by blast
  from ret ret' have same: "w' = w" by simp
  have t0: "wf_t w ! 0 = 0" using grid [unfolded same, rule_format, of 0] by simp
  note f = smp [rule_format, of 0]
  have "wf_Uc w ! 0 = 5" "wf_Q w ! 0 = 0.0005" "wf_I w ! 0 = - 0.005"
    "wf_I w ! 0 = - (wf_I wc ! 0)"
    using f t0 by simp_all
  then show ?thesis by (simp add: ret retc)
qed

subsection \<open>C3: the time grid\<close>

text \<open>
  Claim C3. For every \<open>R > 0\<close> and \<open>C_micro > 0\<close>, the grid of the returned waveform has
  exactly 500 samples, evenly spaced over \<open>[0, t_max]\<close>: the first is \<open>0\<close>, the last is
  \<open>t_max\<close>, sample \<open>i\<close> is \<open>i * t_max / 499\<close> and two neighbours are \<open>t_max / 499\<close> apart, where
  \<open>t_max = max (5 * \<tau>) 0.01\<close>, \<open>\<tau> = R * C\<close> and \<open>C = C_micro * 1e-6\<close>. The other mode
  returns the same grid.
\<close>

theorem C3_time_grid:
  assumes "0 < R" and "0 < C_micro"
  shows "\<exists>w w'. update_graphs R C_micro U0 m = Inr w
           \<and> update_graphs R C_micro U0 (\<not> m) = Inr w'
           \<and> wf_tau w = R * (C_micro * 0.000001)
           \<and> wf_t_max w = max (5 * (R * (C_micro * 0.000001))) 0.01
           \<and> length (wf_t w) = 500
           \<and> wf_t w ! 0 = 0
           \<and> wf_t w ! 499 = wf_t_max w
           \<and> (\<forall>i<500. wf_t w ! i = real i * wf_t_max w / 499)
           \<and> (\<forall>i<499. wf_t w ! Suc i - wf_t w ! i = wf_t_max w / 499)
           \<and> wf_t w' = wf_t w"
proof -
  from returns_grid [OF assms, of U0 m] obtain w where
    ret: "update_graphs R C_micro U0 m = Inr w"
    and tau: "wf_tau w = R * (C_micro * 0.000001)"
    and tmax: "wf_t_max w = max (5 * wf_tau w) 0.01"
    and grid: "wf_t w = linspace 0 (wf_t_max w) 500"
    by blast
  from returns_grid [OF assms, of U0 "\<not> m"] obtain w' where
    ret': "update_graphs R C_micro U0 (\<not> m) = Inr w'"
    and tau': "wf_tau w' = R * (C_micro * 0.000001)"
    and tmax': "wf_t_max w' = max (5 * wf_tau w') 0.01"
    and grid': "wf_t w' = linspace 0 (wf_t_max w') 500"
    by blast
  have same: "wf_t w' = wf_t w"
    by (simp add: grid grid' tmax tmax' tau tau')
  have len: "length (wf_t w) = 500"
    by (subst grid) (rule length_linspace)
  have nth: "wf_t w ! i = real i * wf_t_max w / 499" if "i < 500" for i
    by (subst grid) (rule grid_nth [OF that])
  have first: "wf_t w ! 0 = 0" using nth [of 0] by simp
  have last: "wf_t w ! 499 = wf_t_max w" using nth [of 499] by simp
  have step: "wf_t w ! Suc i - wf_t w ! i = wf_t_max w / 499" if "i < 499" for i
  proof -
    from that have "wf_t w ! Suc i = real (Suc i) * wf_t_max w / 499"
      and "wf_t w ! i = real i * wf_t_max w / 499"
      by (simp_all add: nth)
    then show ?thesis by (simp add: field_simps)
  qed
  have tmax2: "wf_t_max w = max (5 * (R * (C_micro * 0.000001))) 0.01"
    by (simp only: tmax tau)
  from nth have nths: "\<forall>i<500. wf_t w ! i = real i * wf_t_max w / 499" by blast
  from step have steps: "\<forall>i<499. wf_t w ! Suc i - wf_t w ! i = wf_t_max w / 499" by blast
  from ret ret' tau tmax2 len first last nths steps same show ?thesis
    by blast
qed

text \<open>
  In the scenario of the specification the window is \<open>[0, 0.5]\<close> and the step is \<open>0.5 / 499\<close>.
\<close>

theorem C3_time_grid_witness:
  "(0::real) < 1000 \<and> (0::real) < 100
   \<and> \<not> isl (update_graphs 1000 100 5 True)
   \<and> wf_t_max (projr (update_graphs 1000 100 5 True)) = 0.5
   \<and> length (wf_t (projr (update_graphs 1000 100 5 True))) = 500
   \<and> wf_t (projr (update_graphs 1000 100 5 True)) ! 0 = 0
   \<and> wf_t (projr (update_graphs 1000 100 5 True)) ! 499 = 0.5
   \<and> wf_t (projr (update_graphs 1000 100 5 True)) ! 1 = 0.5 / 499
   \<and> wf_t (projr (update_graphs 1000 100 5 False)) = wf_t (projr (update_graphs 1000 100 5 True))"
proof -
  have h: "(0::real) < 1000" "(0::real) < 100" by simp_all
  from C3_time_grid [OF h, of 5 True] obtain w w' where
    ret: "update_graphs 1000 100 5 True = Inr w"
    and ret': "update_graphs 1000 100 5 False = Inr w'"
    and tmax: "wf_t_max w = max (5 * (1000 * (100 * 0.000001))) 0.01"
    and len: "length (wf_t w) = 500"
    and first: "wf_t w ! 0 = 0"
    and last: "wf_t w ! 499 = wf_t_max w"
    and nth: "\<forall>i<500. wf_t w ! i = real i * wf_t_max w / 499"
    and same: "wf_t w' = wf_t w"
    by auto
  have tm: "wf_t_max w = 0.5" using tmax by simp
  have one: "wf_t w ! 1 = 0.5 / 499" using nth [rule_format, of 1] tm by simp
  from len first last one same show ?thesis by (simp add: ret ret' tm)
qed

subsection \<open>C4: charge is capacitance times voltage\<close>

text \<open>
  Claim C4. For every \<open>R > 0\<close>, \<open>C_micro > 0\<close> and \<open>U0\<close>, in both modes and at every sample,
  the charge of the returned waveform is the capacitance times its capacitor voltage:
  \<open>Q(t\<^sub>i) = C * U\<^sub>C(t\<^sub>i)\<close>, also in discharging mode, where the charge is computed on its
  own as \<open>C * U0 * exp (- t / \<tau>)\<close>. The equality is one of real numbers.
\<close>

theorem C4_charge_is_C_times_voltage:
  assumes "0 < R" and "0 < C_micro"
  shows "\<exists>w. update_graphs R C_micro U0 m = Inr w
           \<and> length (wf_Q w) = 500 \<and> length (wf_Uc w) = 500
           \<and> (\<forall>i<500. wf_Q w ! i = (C_micro * 0.000001) * (wf_Uc w ! i))"
proof (cases m)
  case True
  from charge_samples [OF assms, of U0]
  have "\<exists>w. update_graphs R C_micro U0 True = Inr w
           \<and> length (wf_Q w) = 500 \<and> length (wf_Uc w) = 500
           \<and> (\<forall>i<500. wf_Q w ! i = (C_micro * 0.000001) * (wf_Uc w ! i))"
    by blast
  with True show ?thesis by simp
next
  case False
  from discharge_samples [OF assms, of U0] obtain w where
    ret: "update_graphs R C_micro U0 False = Inr w"
    and len: "length (wf_Uc w) = 500" "length (wf_Q w) = 500"
    and smp: "\<forall>i<500. wf_t w ! i = real i * wf_t_max w / 499
                 \<and> wf_Uc w ! i = U0 * exp (- (wf_t w ! i) / wf_tau w)
                 \<and> wf_Q w ! i = C_micro * 0.000001 * U0 * exp (- (wf_t w ! i) / wf_tau w)
                 \<and> wf_I w ! i = - (U0 / R) * exp (- (wf_t w ! i) / wf_tau w)"
    by blast
  have "wf_Q w ! i = (C_micro * 0.000001) * (wf_Uc w ! i)" if "i < 500" for i
    using smp [rule_format, OF that] by (simp only: mult.assoc)
  with ret len
  have "\<exists>w. update_graphs R C_micro U0 False = Inr w
           \<and> length (wf_Q w) = 500 \<and> length (wf_Uc w) = 500
           \<and> (\<forall>i<500. wf_Q w ! i = (C_micro * 0.000001) * (wf_Uc w ! i))"
    by blast
  with False show ?thesis by simp
qed

text \<open>Discharging in the scenario of the specification, at the last sample.\<close>

theorem C4_charge_is_C_times_voltage_witness:
  "(0::real) < 1000 \<and> (0::real) < 100
   \<and> \<not> isl (update_graphs 1000 100 5 False)
   \<and> wf_Q (projr (update_graphs 1000 100 5 False)) ! 499
       = 0.0001 * (wf_Uc (projr (update_graphs 1000 100 5 False)) ! 499)"
proof -
  have h: "(0::real) < 1000" "(0::real) < 100" by simp_all
  from C4_charge_is_C_times_voltage [OF h, of 5 False] obtain w where
    ret: "update_graphs 1000 100 5 False = Inr w"
    and eq: "\<forall>i<500. wf_Q w ! i = (100 * 0.000001) * (wf_Uc w ! i)"
    by blast
  from eq [rule_format, of 499] show ?thesis by (simp add: ret)
qed

subsection \<open>C5: sign and monotonicity of the current\<close>

text \<open>
  Claim C5 says that for every \<open>R > 0\<close>, \<open>C_micro > 0\<close> and \<open>U0 \<ge> 0\<close> the charging current is
  strictly positive and decreasing along the grid, and the discharging current strictly
  negative and increasing toward \<open>0\<close>. At \<open>U0 = 0\<close> this fails: both currents are \<open>0\<close> at
  every sample, since \<open>U0\<close> is a factor of each.
\<close>

theorem C5_zero_supply_counterexample:
  "(0::real) < 1000 \<and> (0::real) < 100 \<and> (0::real) \<le> 0
   \<and> \<not> isl (update_graphs 1000 100 0 True)
   \<and> \<not> isl (update_graphs 1000 100 0 False)
   \<and> \<not> 0 < wf_I (projr (update_graphs 1000 100 0 True)) ! 0
   \<and> \<not> wf_I (projr (update_graphs 1000 100 0 False)) ! 0 < 0"
proof -
  have h: "(0::real) < 1000" "(0::real) < 100" by simp_all
  from charge_samples [OF h, of 0] obtain wc where
    retc: "update_graphs 1000 100 0 True = Inr wc"
    and smpc: "\<forall>i<500. wf_t wc ! i = real i * wf_t_max wc / 499
                 \<and> wf_Uc wc ! i = 0 * (1 - exp (- (wf_t wc ! i) / wf_tau wc))
                 \<and> wf_Q wc ! i = 100 * 0.000001 * (wf_Uc wc ! i)
                 \<and> wf_I wc ! i = 0 / 1000 * exp (- (wf_t wc ! i) / wf_tau wc)"
    by (elim exE conjE) (rule that)
  from discharge_samples [OF h, of 0] obtain wd where
    retd: "update_graphs 1000 100 0 False = Inr wd"
    and smpd: "\<forall>i<500. wf_t wd ! i = real i * wf_t_max wd / 499
                 \<and> wf_Uc wd ! i = 0 * exp (- (wf_t wd ! i) / wf_tau wd)
                 \<and> wf_Q wd ! i = 100 * 0.000001 * 0 * exp (- (wf_t wd ! i) / wf_tau wd)
                 \<and> wf_I wd ! i = - (0 / 1000) * exp (- (wf_t wd ! i) / wf_tau wd)"
    by (elim exE conjE) (rule that)
  have "wf_I wc ! 0 = 0" using smpc [rule_format, of 0] by simp
  moreover have "wf_I wd ! 0 = 0" using smpd [rule_format, of 0] by simp
  ultimately show ?thesis by (simp add: retc retd)
qed

text \<open>
  Claim C5 as amended. For every \<open>R > 0\<close>, \<open>C_micro > 0\<close> and \<open>U0 \<ge> 0\<close>, over the real
  numbers: the charging current is non-negative and decreasing along the grid, the
  discharging current is non-positive and increasing toward \<open>0\<close>, its magnitude
  decreasing; and whenever \<open>U0 > 0\<close> the charging current is strictly positive and strictly
  decreasing, the discharging current strictly negative and strictly increasing.
\<close>

theorem C5_current_sign_and_monotonicity:
  assumes "0 < R" and "0 < C_micro" and "0 \<le> U0"
  shows "\<exists>wc wd. update_graphs R C_micro U0 True = Inr wc
           \<and> update_graphs R C_micro U0 False = Inr wd
           \<and> (\<forall>i<500. 0 \<le> wf_I wc ! i \<and> wf_I wd ! i \<le> 0
                 \<and> (0 < U0 \<longrightarrow> 0 < wf_I wc ! i \<and> wf_I wd ! i < 0))
           \<and> (\<forall>i<500. \<forall>j<500. i \<le> j \<longrightarrow>
                   wf_I wc ! j \<le> wf_I wc ! i \<and> wf_I wd ! i \<le> wf_I wd ! j
                 \<and> \<bar>wf_I wd ! j\<bar> \<le> \<bar>wf_I wd ! i\<bar>)
           \<and> (\<forall>i<500. \<forall>j<500. i < j \<and> 0 < U0 \<longrightarrow>
                   wf_I wc ! j < wf_I wc ! i \<and> wf_I wd ! i < wf_I wd ! j)"
proof -
  from decay_factor [OF assms(1,2), of U0] obtain d :: "nat \<Rightarrow> real" and wc wd where
    dpos: "\<forall>i. 0 < d i \<and> d i \<le> 1"
    and dmono: "\<forall>i j. i \<le> j \<longrightarrow> d j \<le> d i"
    and dstrict: "\<forall>i j. i < j \<longrightarrow> d j < d i"
    and retc: "update_graphs R C_micro U0 True = Inr wc"
    and smpc: "\<forall>i<500. wf_Uc wc ! i = U0 * (1 - d i)
                     \<and> wf_Q wc ! i = C_micro * 0.000001 * (wf_Uc wc ! i)
                     \<and> wf_I wc ! i = U0 / R * d i"
    and retd: "update_graphs R C_micro U0 False = Inr wd"
    and smpd: "\<forall>i<500. wf_Uc wd ! i = U0 * d i
                     \<and> wf_Q wd ! i = C_micro * 0.000001 * U0 * d i
                     \<and> wf_I wd ! i = - (U0 / R) * d i"
    by (elim exE conjE) (rule that)
  have d1: "0 < d i" for i using dpos by (rule allE) (erule conjunct1)
  have d2: "d j \<le> d i" if "i \<le> j" for i j using dmono [rule_format, OF that] .
  have d3: "d j < d i" if "i < j" for i j using dstrict [rule_format, OF that] .
  have ic: "wf_I wc ! i = U0 / R * d i" if "i < 500" for i
    using smpc [rule_format, OF that] by (elim conjE)
  have id: "wf_I wd ! i = - (U0 / R) * d i" if "i < 500" for i
    using smpd [rule_format, OF that] by (elim conjE)
  from assms have k: "0 \<le> U0 / R" by simp
  have sign: "\<forall>i<500. 0 \<le> wf_I wc ! i \<and> wf_I wd ! i \<le> 0
                 \<and> (0 < U0 \<longrightarrow> 0 < wf_I wc ! i \<and> wf_I wd ! i < 0)"
  proof (intro allI impI)
    fix i :: nat assume i: "i < 500"
    define x where "x = U0 / R * d i"
    from k have nn: "0 \<le> x"
      unfolding x_def by (rule mult_nonneg_nonneg) (rule less_imp_le [OF d1])
    have pos: "0 < x" if "0 < U0"
      unfolding x_def
    proof (rule mult_pos_pos)
      from that assms(1) show "0 < U0 / R" by simp
      show "0 < d i" by (rule d1)
    qed
    have c: "wf_I wc ! i = x"
      unfolding x_def by (rule ic [OF i])
    have dd: "wf_I wd ! i = - x"
      unfolding x_def by (simp add: id [OF i])
    show "0 \<le> wf_I wc ! i \<and> wf_I wd ! i \<le> 0
                 \<and> (0 < U0 \<longrightarrow> 0 < wf_I wc ! i \<and> wf_I wd ! i < 0)"
      unfolding c dd using nn pos by simp
  qed
  have mono: "\<forall>i<500. \<forall>j<500. i \<le> j \<longrightarrow>
                   wf_I wc ! j \<le> wf_I wc ! i \<and> wf_I wd ! i \<le> wf_I wd ! j
                 \<and> \<bar>wf_I wd ! j\<bar> \<le> \<bar>wf_I wd ! i\<bar>"
  proof (intro allI impI)
    fix i j :: nat assume i: "i < 500" and j: "j < 500" and ij: "i \<le> j"
    define x where "x = U0 / R * d i"
    define y where "y = U0 / R * d j"
    from d2 [OF ij] k have le: "y \<le> x"
      unfolding x_def y_def by (rule mult_left_mono)
    from k have nj: "0 \<le> y"
      unfolding y_def by (rule mult_nonneg_nonneg) (rule less_imp_le [OF d1])
    have c: "wf_I wc ! i = x" "wf_I wc ! j = y"
      unfolding x_def y_def by (rule ic [OF i], rule ic [OF j])
    have dd: "wf_I wd ! i = - x" "wf_I wd ! j = - y"
      unfolding x_def y_def by (simp_all add: id [OF i] id [OF j])
    show "wf_I wc ! j \<le> wf_I wc ! i \<and> wf_I wd ! i \<le> wf_I wd ! j
                 \<and> \<bar>wf_I wd ! j\<bar> \<le> \<bar>wf_I wd ! i\<bar>"
      unfolding c dd using le nj by simp
  qed
  have strict: "\<forall>i<500. \<forall>j<500. i < j \<and> 0 < U0 \<longrightarrow>
                   wf_I wc ! j < wf_I wc ! i \<and> wf_I wd ! i < wf_I wd ! j"
  proof (intro allI impI)
    fix i j :: nat assume i: "i < 500" and j: "j < 500" and h: "i < j \<and> 0 < U0"
    define x where "x = U0 / R * d i"
    define y where "y = U0 / R * d j"
    from h assms(1) have kp: "0 < U0 / R" by simp
    from h have "d j < d i" by (intro d3) (rule conjunct1)
    from this kp have lt: "y < x"
      unfolding x_def y_def by (rule mult_strict_left_mono)
    have c: "wf_I wc ! i = x" "wf_I wc ! j = y"
      unfolding x_def y_def by (rule ic [OF i], rule ic [OF j])
    have dd: "wf_I wd ! i = - x" "wf_I wd ! j = - y"
      unfolding x_def y_def by (simp_all add: id [OF i] id [OF j])
    show "wf_I wc ! j < wf_I wc ! i \<and> wf_I wd ! i < wf_I wd ! j"
      unfolding c dd using lt by simp
  qed
  from retc retd sign mono strict show ?thesis
    by (intro exI conjI)
qed

text \<open>
  With \<open>U0 = 5\<close> in the scenario of the specification, the first two samples of each current.
\<close>

theorem C5_current_sign_and_monotonicity_witness:
  "(0::real) < 1000 \<and> (0::real) < 100 \<and> (0::real) \<le> 5
   \<and> \<not> isl (update_graphs 1000 100 5 True) \<and> \<not> isl (update_graphs 1000 100 5 False)
   \<and> 0 < wf_I (projr (update_graphs 1000 100 5 True)) ! 1
   \<and> wf_I (projr (update_graphs 1000 100 5 True)) ! 1 < wf_I (projr (update_graphs 1000 100 5 True)) ! 0
   \<and> wf_I (projr (update_graphs 1000 100 5 False)) ! 0 < wf_I (projr (update_graphs 1000 100 5 False)) ! 1
   \<and> wf_I (projr (update_graphs 1000 100 5 False)) ! 1 < 0"
proof -
  have h: "(0::real) < 1000" "(0::real) < 100" "(0::real) \<le> 5" by simp_all
  from C5_current_sign_and_monotonicity [OF h] obtain wc wd where
    retc: "update_graphs 1000 100 5 True = Inr wc"
    and retd: "update_graphs 1000 100 5 False = Inr wd"
    and sign: "\<forall>i<500. 0 \<le> wf_I wc ! i \<and> wf_I wd ! i \<le> 0
                 \<and> ((0::real) < 5 \<longrightarrow> 0 < wf_I wc ! i \<and> wf_I wd ! i < 0)"
    and strict: "\<forall>i<500. \<forall>j<500. i < j \<and> (0::real) < 5 \<longrightarrow>
                   wf_I wc ! j < wf_I wc ! i \<and> wf_I wd ! i < wf_I wd ! j"
    by (elim exE conjE) (rule that)
  from sign [rule_format, of 1] have s1: "0 < wf_I wc ! 1" "wf_I wd ! 1 < 0" by simp_all
  from strict [rule_format, of 0 1]
  have s2: "wf_I wc ! 1 < wf_I wc ! 0" "wf_I wd ! 0 < wf_I wd ! 1" by simp_all
  from s1 s2 show ?thesis by (simp add: retc retd)
qed

subsection \<open>C6: monotonicity of the capacitor voltage\<close>

text \<open>
  Claim C6. For every \<open>R > 0\<close>, \<open>C_micro > 0\<close> and \<open>U0 \<ge> 0\<close>, the charging voltage increases
  along the grid toward \<open>U0\<close>, which it never exceeds, and the discharging voltage decreases
  toward \<open>0\<close>, below which it never falls. For \<open>U0 > 0\<close> both are strictly monotonic and
  never reach their limits.
\<close>

theorem C6_voltage_monotonicity:
  assumes "0 < R" and "0 < C_micro" and "0 \<le> U0"
  shows "\<exists>wc wd. update_graphs R C_micro U0 True = Inr wc
           \<and> update_graphs R C_micro U0 False = Inr wd
           \<and> (\<forall>i<500. \<forall>j<500. i \<le> j \<longrightarrow>
                   wf_Uc wc ! i \<le> wf_Uc wc ! j \<and> wf_Uc wc ! j \<le> U0
                 \<and> wf_Uc wd ! j \<le> wf_Uc wd ! i \<and> 0 \<le> wf_Uc wd ! j)
           \<and> (\<forall>i<500. \<forall>j<500. i < j \<and> 0 < U0 \<longrightarrow>
                   wf_Uc wc ! i < wf_Uc wc ! j \<and> wf_Uc wc ! j < U0
                 \<and> wf_Uc wd ! j < wf_Uc wd ! i \<and> 0 < wf_Uc wd ! j)"
proof -
  from decay_factor [OF assms(1,2), of U0] obtain d :: "nat \<Rightarrow> real" and wc wd where
    dpos: "\<forall>i. 0 < d i \<and> d i \<le> 1"
    and dmono: "\<forall>i j. i \<le> j \<longrightarrow> d j \<le> d i"
    and dstrict: "\<forall>i j. i < j \<longrightarrow> d j < d i"
    and retc: "update_graphs R C_micro U0 True = Inr wc"
    and smpc: "\<forall>i<500. wf_Uc wc ! i = U0 * (1 - d i)
                     \<and> wf_Q wc ! i = C_micro * 0.000001 * (wf_Uc wc ! i)
                     \<and> wf_I wc ! i = U0 / R * d i"
    and retd: "update_graphs R C_micro U0 False = Inr wd"
    and smpd: "\<forall>i<500. wf_Uc wd ! i = U0 * d i
                     \<and> wf_Q wd ! i = C_micro * 0.000001 * U0 * d i
                     \<and> wf_I wd ! i = - (U0 / R) * d i"
    by (elim exE conjE) (rule that)
  have d1: "0 < d i" for i using dpos by (rule allE) (erule conjunct1)
  have d2: "d j \<le> d i" if "i \<le> j" for i j using dmono [rule_format, OF that] .
  have d3: "d j < d i" if "i < j" for i j using dstrict [rule_format, OF that] .
  have uc: "wf_Uc wc ! i = U0 - U0 * d i" if "i < 500" for i
    using smpc [rule_format, OF that] by (simp add: right_diff_distrib)
  have ud: "wf_Uc wd ! i = U0 * d i" if "i < 500" for i
    using smpd [rule_format, OF that] by (elim conjE)
  have mono: "\<forall>i<500. \<forall>j<500. i \<le> j \<longrightarrow>
                   wf_Uc wc ! i \<le> wf_Uc wc ! j \<and> wf_Uc wc ! j \<le> U0
                 \<and> wf_Uc wd ! j \<le> wf_Uc wd ! i \<and> 0 \<le> wf_Uc wd ! j"
  proof (intro allI impI)
    fix i j :: nat assume i: "i < 500" and j: "j < 500" and ij: "i \<le> j"
    define x where "x = U0 * d i"
    define y where "y = U0 * d j"
    from d2 [OF ij] assms(3) have le: "y \<le> x"
      unfolding x_def y_def by (rule mult_left_mono)
    from assms(3) have nj: "0 \<le> y"
      unfolding y_def by (rule mult_nonneg_nonneg) (rule less_imp_le [OF d1])
    have c: "wf_Uc wc ! i = U0 - x" "wf_Uc wc ! j = U0 - y"
      unfolding x_def y_def by (rule uc [OF i], rule uc [OF j])
    have dd: "wf_Uc wd ! i = x" "wf_Uc wd ! j = y"
      unfolding x_def y_def by (rule ud [OF i], rule ud [OF j])
    show "wf_Uc wc ! i \<le> wf_Uc wc ! j \<and> wf_Uc wc ! j \<le> U0
                 \<and> wf_Uc wd ! j \<le> wf_Uc wd ! i \<and> 0 \<le> wf_Uc wd ! j"
      unfolding c dd using le nj by simp
  qed
  have strict: "\<forall>i<500. \<forall>j<500. i < j \<and> 0 < U0 \<longrightarrow>
                   wf_Uc wc ! i < wf_Uc wc ! j \<and> wf_Uc wc ! j < U0
                 \<and> wf_Uc wd ! j < wf_Uc wd ! i \<and> 0 < wf_Uc wd ! j"
  proof (intro allI impI)
    fix i j :: nat assume i: "i < 500" and j: "j < 500" and h: "i < j \<and> 0 < U0"
    define x where "x = U0 * d i"
    define y where "y = U0 * d j"
    from h have u: "0 < U0" by (rule conjunct2)
    from h have "d j < d i" by (intro d3) (rule conjunct1)
    from this u have lt: "y < x"
      unfolding x_def y_def by (rule mult_strict_left_mono)
    from u d1 [of j] have pj: "0 < y"
      unfolding y_def by (rule mult_pos_pos)
    have c: "wf_Uc wc ! i = U0 - x" "wf_Uc wc ! j = U0 - y"
      unfolding x_def y_def by (rule uc [OF i], rule uc [OF j])
    have dd: "wf_Uc wd ! i = x" "wf_Uc wd ! j = y"
      unfolding x_def y_def by (rule ud [OF i], rule ud [OF j])
    show "wf_Uc wc ! i < wf_Uc wc ! j \<and> wf_Uc wc ! j < U0
                 \<and> wf_Uc wd ! j < wf_Uc wd ! i \<and> 0 < wf_Uc wd ! j"
      unfolding c dd using lt pj by simp
  qed
  from retc retd mono strict show ?thesis
    by (intro exI conjI)
qed

text \<open>
  The scenario of the specification, at the first two samples: the charging voltage rises
  and stays below \<open>5\<close>, the discharging voltage falls and stays above \<open>0\<close>.
\<close>

theorem C6_voltage_monotonicity_witness:
  "(0::real) < 1000 \<and> (0::real) < 100 \<and> (0::real) \<le> 5
   \<and> \<not> isl (update_graphs 1000 100 5 True) \<and> \<not> isl (update_graphs 1000 100 5 False)
   \<and> wf_Uc (projr (update_graphs 1000 100 5 True)) ! 0 < wf_Uc (projr (update_graphs 1000 100 5 True)) ! 1
   \<and> wf_Uc (projr (update_graphs 1000 100 5 True)) ! 1 < 5
   \<and> wf_Uc (projr (update_graphs 1000 100 5 False)) ! 1 < wf_Uc (projr (update_graphs 1000 100 5 False)) ! 0
   \<and> 0 < wf_Uc (projr (update_graphs 1000 100 5 False)) ! 1"
proof -
  have h: "(0::real) < 1000" "(0::real) < 100" "(0::real) \<le> 5" by simp_all
  from C6_voltage_monotonicity [OF h] obtain wc wd where
    retc: "update_graphs 1000 100 5 True = Inr wc"
    and retd: "update_graphs 1000 100 5 False = Inr wd"
    and strict: "\<forall>i<500. \<forall>j<500. i < j \<and> (0::real) < 5 \<longrightarrow>
                   wf_Uc wc ! i < wf_Uc wc ! j \<and> wf_Uc wc ! j < 5
                 \<and> wf_Uc wd ! j < wf_Uc wd ! i \<and> 0 < wf_Uc wd ! j"
    by (elim exE conjE) (rule that)
  from strict [rule_format, of 0 1]
  have "wf_Uc wc ! 0 < wf_Uc wc ! 1" "wf_Uc wc ! 1 < 5"
    "wf_Uc wd ! 1 < wf_Uc wd ! 0" "0 < wf_Uc wd ! 1"
    by simp_all
  then show ?thesis by (simp add: retc retd)
qed

subsection \<open>C7: the length of the window\<close>

text \<open>
  Claim C7 says that for every \<open>R > 0\<close> and \<open>C_micro > 0\<close> the window satisfies
  \<open>t_max \<ge> 5 * \<tau>\<close>, and that \<open>t_max\<close> is the floor \<open>0.01\<close> only when \<open>5 * \<tau> < 0.01\<close>. The
  second half fails where \<open>5 * \<tau>\<close> is the floor itself: with \<open>R = 2000\<close> and \<open>C_micro = 1\<close>
  (both on the sliders) \<open>\<tau> = 0.002\<close>, so \<open>t_max = max 0.01 0.01 = 0.01\<close> while \<open>5 * \<tau> < 0.01\<close>
  does not hold.
\<close>

theorem C7_floor_boundary_counterexample:
  "(0::real) < 2000 \<and> (0::real) < 1
   \<and> \<not> isl (update_graphs 2000 1 5 True)
   \<and> wf_t_max (projr (update_graphs 2000 1 5 True)) = 0.01
   \<and> \<not> 5 * wf_tau (projr (update_graphs 2000 1 5 True)) < 0.01"
proof -
  have h: "(0::real) < 2000" "(0::real) < 1" by simp_all
  from returns_grid [OF h, of 5 True] obtain w where
    ret: "update_graphs 2000 1 5 True = Inr w"
    and tau: "wf_tau w = 2000 * (1 * 0.000001)"
    and tmax: "wf_t_max w = max (5 * wf_tau w) 0.01"
    by (elim exE conjE) (rule that)
  have t: "wf_tau w = 0.002" unfolding tau by simp
  have m: "wf_t_max w = 0.01" unfolding tmax t by simp
  show ?thesis by (simp add: ret t m)
qed

text \<open>
  Claim C7 as amended. For every \<open>R > 0\<close> and \<open>C_micro > 0\<close>, in either mode, the window
  satisfies \<open>t_max \<ge> 5 * \<tau>\<close>, and \<open>t_max\<close> is the floor \<open>0.01\<close> exactly when \<open>5 * \<tau> \<le> 0.01\<close>.
\<close>

theorem C7_window_length:
  assumes "0 < R" and "0 < C_micro"
  shows "\<exists>w. update_graphs R C_micro U0 m = Inr w
           \<and> wf_tau w = R * (C_micro * 0.000001)
           \<and> 5 * wf_tau w \<le> wf_t_max w
           \<and> (wf_t_max w = 0.01 \<longleftrightarrow> 5 * wf_tau w \<le> 0.01)"
proof -
  from returns_grid [OF assms, of U0 m] obtain w where
    ret: "update_graphs R C_micro U0 m = Inr w"
    and tau: "wf_tau w = R * (C_micro * 0.000001)"
    and tmax: "wf_t_max w = max (5 * wf_tau w) 0.01"
    by (elim exE conjE) (rule that)
  have ge: "5 * wf_tau w \<le> wf_t_max w" unfolding tmax by (rule max.cobounded1)
  have fl: "wf_t_max w = 0.01 \<longleftrightarrow> 5 * wf_tau w \<le> 0.01"
    unfolding tmax by (auto simp: max_def)
  from ret tau ge fl show ?thesis by (intro exI conjI)
qed

text \<open>
  The smallest setting of the sliders, \<open>R = 100\<close> and \<open>C_micro = 1\<close>: \<open>5 * \<tau> = 0.0005\<close> lies below
  the floor, and the window is the floor.
\<close>

theorem C7_window_length_witness:
  "(0::real) < 100 \<and> (0::real) < 1
   \<and> \<not> isl (update_graphs 100 1 5 False)
   \<and> wf_tau (projr (update_graphs 100 1 5 False)) = 0.0001
   \<and> 5 * wf_tau (projr (update_graphs 100 1 5 False)) \<le> wf_t_max (projr (update_graphs 100 1 5 False))
   \<and> wf_t_max (projr (update_graphs 100 1 5 False)) = 0.01"
proof -
  have h: "(0::real) < 100" "(0::real) < 1" by simp_all
  from C7_window_length [OF h, of 5 False] obtain w where
    ret: "update_graphs 100 1 5 False = Inr w"
    and tau: "wf_tau w = 100 * (1 * 0.000001)"
    and ge: "5 * wf_tau w \<le> wf_t_max w"
    and fl: "wf_t_max w = 0.01 \<longleftrightarrow> 5 * wf_tau w \<le> 0.01"
    by (elim exE conjE) (rule that)
  have t: "wf_tau w = 0.0001" unfolding tau by simp
  have "5 * wf_tau w \<le> 0.01" unfolding t by simp
  with fl have m: "wf_t_max w = 0.01" by (rule iffD2)
  from t ge m show ?thesis by (simp add: ret)
qed

subsection \<open>C8: the first sample\<close>

text \<open>
  Claim C8. For all \<open>R > 0\<close> and \<open>C_micro > 0\<close> (and any \<open>U0\<close>, in particular \<open>U0 \<ge> 0\<close>):
  \<open>\<tau> = R * C\<close> is positive, the first sample of the grid is exactly \<open>0\<close>, and the first
  voltage is exactly \<open>0\<close> in charging mode and exactly \<open>U0\<close> in discharging mode.
\<close>

theorem C8_first_sample:
  assumes "0 < R" and "0 < C_micro"
  shows "\<exists>wc wd. update_graphs R C_micro U0 True = Inr wc
           \<and> update_graphs R C_micro U0 False = Inr wd
           \<and> wf_tau wc = R * (C_micro * 0.000001) \<and> 0 < wf_tau wc
           \<and> wf_tau wd = R * (C_micro * 0.000001) \<and> 0 < wf_tau wd
           \<and> wf_t wc ! 0 = 0 \<and> wf_t wd ! 0 = 0
           \<and> wf_Uc wc ! 0 = 0 \<and> wf_Uc wd ! 0 = U0"
proof -
  from charge_samples [OF assms, of U0] obtain wc where
    retc: "update_graphs R C_micro U0 True = Inr wc"
    and tauc: "wf_tau wc = R * (C_micro * 0.000001)"
    and smpc: "\<forall>i<500. wf_t wc ! i = real i * wf_t_max wc / 499
                 \<and> wf_Uc wc ! i = U0 * (1 - exp (- (wf_t wc ! i) / wf_tau wc))
                 \<and> wf_Q wc ! i = C_micro * 0.000001 * (wf_Uc wc ! i)
                 \<and> wf_I wc ! i = U0 / R * exp (- (wf_t wc ! i) / wf_tau wc)"
    by (elim exE conjE) (rule that)
  from discharge_samples [OF assms, of U0] obtain wd where
    retd: "update_graphs R C_micro U0 False = Inr wd"
    and taud: "wf_tau wd = R * (C_micro * 0.000001)"
    and smpd: "\<forall>i<500. wf_t wd ! i = real i * wf_t_max wd / 499
                 \<and> wf_Uc wd ! i = U0 * exp (- (wf_t wd ! i) / wf_tau wd)
                 \<and> wf_Q wd ! i = C_micro * 0.000001 * U0 * exp (- (wf_t wd ! i) / wf_tau wd)
                 \<and> wf_I wd ! i = - (U0 / R) * exp (- (wf_t wd ! i) / wf_tau wd)"
    by (elim exE conjE) (rule that)
  have posc: "0 < wf_tau wc" unfolding tauc by (rule tau_pos [OF assms])
  have posd: "0 < wf_tau wd" unfolding taud by (rule tau_pos [OF assms])
  have tc: "wf_t wc ! 0 = 0" using smpc [rule_format, of 0] by simp
  have td: "wf_t wd ! 0 = 0" using smpd [rule_format, of 0] by simp
  have uc: "wf_Uc wc ! 0 = 0" using smpc [rule_format, of 0] by (simp add: tc)
  have ud: "wf_Uc wd ! 0 = U0" using smpd [rule_format, of 0] by (simp add: td)
  from retc retd tauc posc taud posd tc td uc ud show ?thesis
    by (intro exI conjI)
qed

text \<open>The two scenarios of the specification: \<open>\<tau> = 0.1\<close>, and the voltage starts at \<open>0\<close> or at \<open>5\<close>.\<close>

theorem C8_first_sample_witness:
  "(0::real) < 1000 \<and> (0::real) < 100
   \<and> \<not> isl (update_graphs 1000 100 5 True) \<and> \<not> isl (update_graphs 1000 100 5 False)
   \<and> wf_tau (projr (update_graphs 1000 100 5 True)) = 0.1
   \<and> wf_t (projr (update_graphs 1000 100 5 True)) ! 0 = 0
   \<and> wf_t (projr (update_graphs 1000 100 5 False)) ! 0 = 0
   \<and> wf_Uc (projr (update_graphs 1000 100 5 True)) ! 0 = 0
   \<and> wf_Uc (projr (update_graphs 1000 100 5 False)) ! 0 = 5"
proof -
  have h: "(0::real) < 1000" "(0::real) < 100" by simp_all
  from C8_first_sample [OF h, of 5] obtain wc wd where
    retc: "update_graphs 1000 100 5 True = Inr wc"
    and retd: "update_graphs 1000 100 5 False = Inr wd"
    and tauc: "wf_tau wc = 1000 * (100 * 0.000001)"
    and first: "wf_t wc ! 0 = 0" "wf_t wd ! 0 = 0" "wf_Uc wc ! 0 = 0" "wf_Uc wd ! 0 = 5"
    by (elim exE conjE) (rule that)
  have t: "wf_tau wc = 0.1" unfolding tauc by simp
  from t first show ?thesis by (simp add: retc retd)
qed

subsection \<open>C10: voltage and charge stay within the supply\<close>

text \<open>
  Claim C10. For every \<open>R > 0\<close>, \<open>C_micro > 0\<close> and \<open>U0 \<ge> 0\<close>, in both modes and at every
  sample, the capacitor voltage lies between \<open>0\<close> and the supply, \<open>0 \<le> U\<^sub>C(t\<^sub>i) \<le> U0\<close>, and
  the charge between \<open>0\<close> and \<open>C * U0\<close>.
\<close>

theorem C10_voltage_and_charge_bounds:
  assumes "0 < R" and "0 < C_micro" and "0 \<le> U0"
  shows "\<exists>w. update_graphs R C_micro U0 m = Inr w
           \<and> (\<forall>i<500. 0 \<le> wf_Uc w ! i \<and> wf_Uc w ! i \<le> U0
                 \<and> 0 \<le> wf_Q w ! i \<and> wf_Q w ! i \<le> (C_micro * 0.000001) * U0)"
proof -
  from decay_factor [OF assms(1,2), of U0] obtain d :: "nat \<Rightarrow> real" and wc wd where
    dpos: "\<forall>i. 0 < d i \<and> d i \<le> 1"
    and retc: "update_graphs R C_micro U0 True = Inr wc"
    and smpc: "\<forall>i<500. wf_Uc wc ! i = U0 * (1 - d i)
                     \<and> wf_Q wc ! i = C_micro * 0.000001 * (wf_Uc wc ! i)
                     \<and> wf_I wc ! i = U0 / R * d i"
    and retd: "update_graphs R C_micro U0 False = Inr wd"
    and smpd: "\<forall>i<500. wf_Uc wd ! i = U0 * d i
                     \<and> wf_Q wd ! i = C_micro * 0.000001 * U0 * d i
                     \<and> wf_I wd ! i = - (U0 / R) * d i"
    by (elim exE conjE) (rule that)
  define C where "C = C_micro * 0.000001"
  from assms(2) have C: "0 \<le> C" unfolding C_def by simp
  have bounds: "0 \<le> v \<and> v \<le> U0 \<and> 0 \<le> C * v \<and> C * v \<le> C * U0"
    if "0 \<le> v" and "v \<le> U0" for v
    using that C by (simp add: mult_left_mono)
  have x: "0 \<le> U0 * d i \<and> U0 * d i \<le> U0" for i
  proof
    from assms(3) show "0 \<le> U0 * d i"
      by (rule mult_nonneg_nonneg) (rule less_imp_le [OF dpos [rule_format, THEN conjunct1]])
    from dpos [rule_format, THEN conjunct2] assms(3) show "U0 * d i \<le> U0"
      by (rule mult_left_le)
  qed
  have charge: "\<forall>i<500. 0 \<le> wf_Uc wc ! i \<and> wf_Uc wc ! i \<le> U0
                 \<and> 0 \<le> wf_Q wc ! i \<and> wf_Q wc ! i \<le> C * U0"
  proof (intro allI impI)
    fix i :: nat assume i: "i < 500"
    define v where "v = U0 - U0 * d i"
    from x [of i] have "0 \<le> v" "v \<le> U0" unfolding v_def by simp_all
    from bounds [OF this]
    have b: "0 \<le> v \<and> v \<le> U0 \<and> 0 \<le> C * v \<and> C * v \<le> C * U0" .
    have u: "wf_Uc wc ! i = v"
      unfolding v_def using smpc [rule_format, OF i] by (simp add: right_diff_distrib)
    have q: "wf_Q wc ! i = C * v"
      unfolding C_def u [symmetric] using smpc [rule_format, OF i] by (elim conjE)
    show "0 \<le> wf_Uc wc ! i \<and> wf_Uc wc ! i \<le> U0
                 \<and> 0 \<le> wf_Q wc ! i \<and> wf_Q wc ! i \<le> C * U0"
      unfolding u q by (rule b)
  qed
  have discharge: "\<forall>i<500. 0 \<le> wf_Uc wd ! i \<and> wf_Uc wd ! i \<le> U0
                 \<and> 0 \<le> wf_Q wd ! i \<and> wf_Q wd ! i \<le> C * U0"
  proof (intro allI impI)
    fix i :: nat assume i: "i < 500"
    define v where "v = U0 * d i"
    from x [of i] have "0 \<le> v" "v \<le> U0" unfolding v_def by simp_all
    from bounds [OF this]
    have b: "0 \<le> v \<and> v \<le> U0 \<and> 0 \<le> C * v \<and> C * v \<le> C * U0" .
    have u: "wf_Uc wd ! i = v"
      unfolding v_def using smpd [rule_format, OF i] by (elim conjE)
    have q: "wf_Q wd ! i = C * v"
      unfolding C_def v_def using smpd [rule_format, OF i] by (simp only: mult.assoc)
    show "0 \<le> wf_Uc wd ! i \<and> wf_Uc wd ! i \<le> U0
                 \<and> 0 \<le> wf_Q wd ! i \<and> wf_Q wd ! i \<le> C * U0"
      unfolding u q by (rule b)
  qed
  show ?thesis
  proof (cases m)
    case True
    from retc charge
    have "\<exists>w. update_graphs R C_micro U0 True = Inr w
           \<and> (\<forall>i<500. 0 \<le> wf_Uc w ! i \<and> wf_Uc w ! i \<le> U0
                 \<and> 0 \<le> wf_Q w ! i \<and> wf_Q w ! i \<le> (C_micro * 0.000001) * U0)"
      unfolding C_def by (intro exI conjI)
    with True show ?thesis by simp
  next
    case False
    from retd discharge
    have "\<exists>w. update_graphs R C_micro U0 False = Inr w
           \<and> (\<forall>i<500. 0 \<le> wf_Uc w ! i \<and> wf_Uc w ! i \<le> U0
                 \<and> 0 \<le> wf_Q w ! i \<and> wf_Q w ! i \<le> (C_micro * 0.000001) * U0)"
      unfolding C_def by (intro exI conjI)
    with False show ?thesis by simp
  qed
qed

text \<open>
  The last sample of the charging scenario of the specification: the voltage is within
  \<open>[0, 5]\<close> and the charge within \<open>[0, 0.0005]\<close>.
\<close>

theorem C10_voltage_and_charge_bounds_witness:
  "(0::real) < 1000 \<and> (0::real) < 100 \<and> (0::real) \<le> 5
   \<and> \<not> isl (update_graphs 1000 100 5 True)
   \<and> 0 \<le> wf_Uc (projr (update_graphs 1000 100 5 True)) ! 499
   \<and> wf_Uc (projr (update_graphs 1000 100 5 True)) ! 499 \<le> 5
   \<and> 0 \<le> wf_Q (projr (update_graphs 1000 100 5 True)) ! 499
   \<and> wf_Q (projr (update_graphs 1000 100 5 True)) ! 499 \<le> 0.0005"
proof -
  have h: "(0::real) < 1000" "(0::real) < 100" "(0::real) \<le> 5" by simp_all
  from C10_voltage_and_charge_bounds [OF h, of True] obtain w where
    ret: "update_graphs 1000 100 5 True = Inr w"
    and b: "\<forall>i<500. 0 \<le> wf_Uc w ! i \<and> wf_Uc w ! i \<le> 5
                 \<and> 0 \<le> wf_Q w ! i \<and> wf_Q w ! i \<le> (100 * 0.000001) * 5"
    by (elim exE conjE) (rule that)
  from b [rule_format, of 499]
  have "0 \<le> wf_Uc w ! 499" "wf_Uc w ! 499 \<le> 5" "0 \<le> wf_Q w ! 499" "wf_Q w ! 499 \<le> 0.0005"
    by simp_all
  then show ?thesis by (simp add: ret)
qed

end
